theory Spec2Isabelle
  imports Complex_Main "HOL-Library.Word"
begin

section \<open>Values of the host language\<close>

text \<open>
  The library (\<^verbatim>\<open>src/resulta.ts\<close>) is generic in the payload types \<open>A\<close> and \<open>E\<close>;
  at run time a payload is any JavaScript value. The universe below has the primitive
  values, error objects (instances of \<^verbatim>\<open>Error\<close> or of a subclass, with the name of
  their class, their message and their further own properties), arrays and other objects.
  A number is not-a-number, an infinity or a finite number (the two zeros are not told
  apart: both are falsy).
\<close>

datatype number = NaN | PosInfinity | NegInfinity | Finite_number real

datatype jsval =
    JUndefined
  | JNull
  | JBoolean bool
  | JNumber number
  | JBigInt int
  | JString string
  | JSymbol string
  | JFunction nat
  | JError string string "(string \<times> jsval) list"
  | JArray "jsval list"
  | JObject "(string \<times> jsval) list"

text \<open>
  The language's conversion to a boolean, as \<^verbatim>\<open>if (value && ...)\<close> applies it: the
  falsy values are \<^verbatim>\<open>undefined\<close>, \<^verbatim>\<open>null\<close>, \<^verbatim>\<open>false\<close>, the zeros, \<^verbatim>\<open>NaN\<close>,
  \<^verbatim>\<open>0n\<close> and the empty string.
\<close>

fun truthy :: "jsval \<Rightarrow> bool" where
  "truthy JUndefined = False"
| "truthy JNull = False"
| "truthy (JBoolean b) = b"
| "truthy (JNumber NaN) = False"
| "truthy (JNumber (Finite_number x)) = (x \<noteq> 0)"
| "truthy (JNumber PosInfinity) = True"
| "truthy (JNumber NegInfinity) = True"
| "truthy (JBigInt i) = (i \<noteq> 0)"
| "truthy (JString s) = (s \<noteq> [])"
| "truthy (JSymbol s) = True"
| "truthy (JFunction f) = True"
| "truthy (JError c m ps) = True"
| "truthy (JArray xs) = True"
| "truthy (JObject ps) = True"

text \<open>\<^verbatim>\<open>value instanceof Error\<close>: true of error objects of every class, of nothing else.\<close>

fun instanceof_Error :: "jsval \<Rightarrow> bool" where
  "instanceof_Error (JError c m ps) = True"
| "instanceof_Error v = False"

text \<open>
  An assignment \<^verbatim>\<open>xs[i] = v\<close> to an array: in range it replaces the element, beyond
  the end it extends the array (the holes read as \<^verbatim>\<open>undefined\<close>).
\<close>

definition array_set :: "jsval list \<Rightarrow> nat \<Rightarrow> jsval \<Rightarrow> jsval list" where
  "array_set xs i v =
     (if i < length xs then xs[i := v]
      else xs @ replicate (i - length xs) JUndefined @ [v])"

section \<open>Calls that have effects\<close>

text \<open>
  A callback of the caller's may change the caller's state and may throw. A call is a
  function from the state before to its completion (a returned value or a thrown one)
  and the state after.
\<close>

datatype 'a completion = Returned 'a | Thrown jsval

type_synonym ('s, 'a) js = "'s \<Rightarrow> 'a completion \<times> 's"

text \<open>
  A promise, seen from the code that awaits it: awaiting runs the program until the
  promise has settled, and gives the settlement and the state then. \<open>Pending\<close> is a
  promise that never settles.
\<close>

datatype 'a settlement = Fulfilled 'a | Rejected jsval | Pending

type_synonym ('s, 'a) promise = "'s \<Rightarrow> 'a settlement \<times> 's"

text \<open>
  The tests observe calls with recording wrappers (\<^verbatim>\<open>vi.fn\<close>, then
  \<^verbatim>\<open>toHaveBeenCalledOnce\<close>, \<^verbatim>\<open>toHaveBeenCalledWith\<close>). \<open>spy name args f\<close> is
  the call \<open>f\<close> that also appends its name and arguments to a log kept in the state.
\<close>

type_synonym calls = "(string \<times> jsval list) list"

definition spy :: "string \<Rightarrow> jsval list \<Rightarrow> ('s \<Rightarrow> 'r \<times> 's) \<Rightarrow> calls \<times> 's \<Rightarrow> 'r \<times> calls \<times> 's" where
  "spy name args f = (\<lambda>(seen, s). case f s of (r, s') \<Rightarrow> (r, seen @ [(name, args)], s'))"

text \<open>A callback without effects that returns \<open>f a\<close>.\<close>

definition returns :: "('a \<Rightarrow> 'b) \<Rightarrow> 'a \<Rightarrow> ('s, 'b) js" where
  "returns f a s = (Returned (f a), s)"

section \<open>The Result value\<close>

text \<open>
  \<^verbatim>\<open>ResultStatus = { ok: 1 << 0, err: 1 << 1 }\<close>: the shifts are 32-bit.
  \<^verbatim>\<open>interface ResultCase { status; value; err }\<close> is the one shape of both variants.
  The field \<open>err\<close> of the record is written \<open>ResultCase.err\<close> below, since \<open>err\<close>
  is also the name of the constructor function.
\<close>

definition ResultStatus_ok :: "32 word" where
  "ResultStatus_ok = push_bit 0 1"

definition ResultStatus_err :: "32 word" where
  "ResultStatus_err = push_bit 1 1"

record ResultCase =
  status :: "32 word"
  "value" :: jsval
  err :: jsval

definition isOk :: "ResultCase \<Rightarrow> bool" where
  "isOk result = (status result = ResultStatus_ok)"

definition isErr :: "ResultCase \<Rightarrow> bool" where
  "isErr result = (status result = ResultStatus_err)"

definition err :: "jsval \<Rightarrow> ResultCase" where
  "err e = \<lparr>status = ResultStatus_err, value = JNull, err = e\<rparr>"

definition ok :: "jsval \<Rightarrow> ResultCase" where
  "ok t = \<lparr>status = ResultStatus_ok, value = t, err = JNull\<rparr>"

text \<open>
  \<^verbatim>\<open>ofPromise\<close> is an async function: what it returns is a promise, and a throw in its
  body would reject that promise. The thunk is called inside the \<^verbatim>\<open>try\<close>, so a throw
  of the call itself is caught like a rejection of the awaited promise.
\<close>

definition ofPromise :: "('s, ('s, jsval) promise) js \<Rightarrow> ('s, ResultCase) promise" where
  "ofPromise thunk s =
     (case thunk s of
        (Thrown error, s1) \<Rightarrow> (Fulfilled (err error), s1)
      | (Returned p, s1) \<Rightarrow>
          (case p s1 of
             (Fulfilled v, s2) \<Rightarrow> (Fulfilled (ok v), s2)
           | (Rejected error, s2) \<Rightarrow> (Fulfilled (err error), s2)
           | (Pending, s2) \<Rightarrow> (Pending, s2)))"

definition ofThrowable :: "('s, jsval) js \<Rightarrow> ('s, ResultCase) js" where
  "ofThrowable throwable s =
     (case throwable s of
        (Returned v, s') \<Rightarrow> (Returned (ok v), s')
      | (Thrown e, s') \<Rightarrow> (Returned (err e), s'))"

definition andThen :: "ResultCase \<Rightarrow> (jsval \<Rightarrow> ('s, ResultCase) js) \<Rightarrow> ('s, ResultCase) js" where
  "andThen result tx s =
     (if isOk result then tx (value result) s
      else (Returned result, s))"

definition map_result :: "ResultCase \<Rightarrow> (jsval \<Rightarrow> ('s, jsval) js) \<Rightarrow> ('s, ResultCase) js" where
  "map_result result tx s =
     (if isOk result then
        (case tx (value result) s of
           (Returned b, s') \<Rightarrow> (Returned (ok b), s')
         | (Thrown x, s') \<Rightarrow> (Thrown x, s'))
      else (Returned result, s))"

definition mapErr :: "ResultCase \<Rightarrow> (jsval \<Rightarrow> ('s, jsval) js) \<Rightarrow> ('s, ResultCase) js" where
  "mapErr result tx s =
     (if isOk result then (Returned result, s)
      else
        (case tx (ResultCase.err result) s of
           (Returned b, s') \<Rightarrow> (Returned (err b), s')
         | (Thrown x, s') \<Rightarrow> (Thrown x, s')))"

definition valueOr :: "ResultCase \<Rightarrow> jsval \<Rightarrow> jsval" where
  "valueOr result fallback = (if isOk result then value result else fallback)"

text \<open>
  \<^verbatim>\<open>class ResultAccessErr extends Error { readonly _tag = "ResultAccessErr" }\<close>:
  \<open>ResultAccessErr message\<close> is \<^verbatim>\<open>new ResultAccessErr(message)\<close>.
\<close>

definition ResultAccessErr :: "string \<Rightarrow> jsval" where
  "ResultAccessErr message =
     JError ''ResultAccessErr'' message [(''_tag'', JString ''ResultAccessErr'')]"

definition valueExn :: "ResultCase \<Rightarrow> jsval completion" where
  "valueExn result =
     (if isOk result then Returned (value result)
      else Thrown (ResultAccessErr ''Tried to access result value that is not ok''))"

text \<open>
  The loop of \<^verbatim>\<open>combine\<close>, over the elements not yet visited, with the array
  \<^verbatim>\<open>values\<close> and the index \<^verbatim>\<open>i\<close> as they are before the step.
\<close>

fun combine_loop :: "ResultCase list \<Rightarrow> jsval list \<Rightarrow> nat \<Rightarrow> ResultCase" where
  "combine_loop [] values i = ok (JArray values)"
| "combine_loop (result # rest) values i =
     (if isOk result then combine_loop rest (array_set values i (value result)) (i + 1)
      else result)"

definition combine :: "ResultCase list \<Rightarrow> ResultCase" where
  "combine results = combine_loop results (replicate (length results) JNull) 0"

record ('s, 'u) cases =
  Ok :: "jsval \<Rightarrow> ('s, 'u) js"
  Err :: "jsval \<Rightarrow> ('s, 'u) js"

definition match :: "ResultCase \<Rightarrow> ('s, 'u) cases \<Rightarrow> ('s, 'u) js" where
  "match result cases =
     (if isOk result then Ok cases (value result)
      else Err cases (ResultCase.err result))"

text \<open>
  A chain of calls as the tests nest them,
  \<^verbatim>\<open>andThen(andThen(andThen(r, f1), f2), f3)\<close>: the innermost call is evaluated first,
  and a throw ends the evaluation.
\<close>

fun andThen_chain :: "ResultCase \<Rightarrow> (jsval \<Rightarrow> ('s, ResultCase) js) list \<Rightarrow> ('s, ResultCase) js" where
  "andThen_chain r [] s = (Returned r, s)"
| "andThen_chain r (tx # txs) s =
     (case andThen r tx s of
        (Returned r', s') \<Rightarrow> andThen_chain r' txs s'
      | (Thrown x, s') \<Rightarrow> (Thrown x, s'))"

text \<open>
  \<^verbatim>\<open>result(value?)\<close>: the argument may be left out, and the parameter is then
  \<^verbatim>\<open>undefined\<close>.
\<close>

definition result :: "jsval option \<Rightarrow> ResultCase" where
  "result arg =
     (let v = (case arg of None \<Rightarrow> JUndefined | Some a \<Rightarrow> a);
          isError = instanceof_Error v
      in if truthy v \<and> \<not> isError then ok v else err v)"

section \<open>Notions the properties are stated with\<close>

text \<open>
  A thunk for \<^verbatim>\<open>ofPromise\<close> under observation: the call of the thunk is recorded,
  and so is each await of the promise it returns.
\<close>

definition spy_promise :: "('s, ('s, jsval) promise) js \<Rightarrow> (calls \<times> 's, (calls \<times> 's, jsval) promise) js" where
  "spy_promise thunk =
     (\<lambda>(seen, s). case thunk s of
        (Returned p, s') \<Rightarrow> (Returned (spy ''await'' [] p), seen @ [(''thunk'', [])], s')
      | (Thrown x, s') \<Rightarrow> (Thrown x, seen @ [(''thunk'', [])], s'))"

text \<open>
  A field is populated when it holds something other than \<^verbatim>\<open>null\<close>, the value the
  constructors put into the field of the other variant.
\<close>

definition exactly_one_populated :: "ResultCase \<Rightarrow> bool" where
  "exactly_one_populated r = ((value r \<noteq> JNull) \<noteq> (ResultCase.err r \<noteq> JNull))"

text \<open>
  The two predicates disagree, the field of the other variant is \<^verbatim>\<open>null\<close>, and
  exactly one field is populated just when the payload is not \<^verbatim>\<open>null\<close> itself.
\<close>

definition discriminant_exclusive :: "ResultCase \<Rightarrow> bool" where
  "discriminant_exclusive r =
     ((isOk r \<noteq> isErr r)
      \<and> (if isOk r
         then ResultCase.err r = JNull \<and> exactly_one_populated r = (value r \<noteq> JNull)
         else value r = JNull \<and> exactly_one_populated r = (ResultCase.err r \<noteq> JNull)))"

section \<open>The discriminant\<close>

lemma ResultStatus_distinct: "ResultStatus_ok \<noteq> ResultStatus_err"
  by (simp add: ResultStatus_ok_def ResultStatus_err_def)

lemma isOk_ok: "isOk (ok t)"
  by (simp add: isOk_def ok_def)

lemma isOk_err: "\<not> isOk (err e)"
  using ResultStatus_distinct by (simp add: isOk_def err_def)

lemma isErr_ok: "\<not> isErr (ok t)"
  using ResultStatus_distinct by (simp add: isErr_def ok_def)

lemma isErr_err: "isErr (err e)"
  by (simp add: isErr_def err_def)

lemma value_ok: "value (ok t) = t"
  by (simp add: ok_def)

lemma err_err: "ResultCase.err (err e) = e"
  by (simp add: err_def)

lemma discriminant_exclusive_ok: "discriminant_exclusive (ok v)"
  using ResultStatus_distinct
  by (simp add: discriminant_exclusive_def exactly_one_populated_def isOk_def isErr_def ok_def)

lemma discriminant_exclusive_err: "discriminant_exclusive (err e)"
  using ResultStatus_distinct
  by (simp add: discriminant_exclusive_def exactly_one_populated_def isOk_def isErr_def err_def)

lemma result_ok_or_err:
  "result arg = ok (case arg of None \<Rightarrow> JUndefined | Some a \<Rightarrow> a)
   \<or> result arg = err (case arg of None \<Rightarrow> JUndefined | Some a \<Rightarrow> a)"
  by (simp add: result_def Let_def)

text \<open>
  C10: for every value \<open>v\<close>, \<^verbatim>\<open>null\<close> and \<^verbatim>\<open>undefined\<close> included, \<open>ok v\<close> is a Result
  of which \<open>isOk\<close> is true and \<open>isErr\<close> is false. The variant depends on the status
  alone: putting anything into the fields \<open>value\<close> and \<open>err\<close> of a Result changes
  neither predicate. \<open>ok JNull\<close> is an Ok whose two fields are both \<^verbatim>\<open>null\<close>.
\<close>

theorem ok_of_any_value:
  "isOk (ok v) \<and> \<not> isErr (ok v)
   \<and> isOk (r\<lparr>value := v', err := e'\<rparr>) = isOk r
   \<and> isErr (r\<lparr>value := v', err := e'\<rparr>) = isErr r
   \<and> isOk (ok JNull) \<and> \<not> isErr (ok JNull)
   \<and> value (ok JNull) = JNull \<and> ResultCase.err (ok JNull) = JNull
   \<and> isOk (ok JUndefined) \<and> \<not> isErr (ok JUndefined)"
  by (simp add: isOk_ok isErr_ok value_ok) (simp add: isOk_def isErr_def ok_def)

text \<open>
  C7, as the code has it: for the Result that each constructor gives (\<open>ok\<close>, \<open>err\<close>,
  \<open>result\<close>, \<open>ofThrowable\<close>, which always returns one, and \<open>ofPromise\<close>, whenever
  its promise settles, which is never by a rejection), \<open>isOk\<close> and \<open>isErr\<close> are
  negations of each other and the field of the other variant is \<^verbatim>\<open>null\<close>; exactly one
  of the two fields is populated if and only if the wrapped payload is not \<^verbatim>\<open>null\<close>.
\<close>

theorem constructed_discriminant:
  "discriminant_exclusive (ok v)
   \<and> discriminant_exclusive (err e)
   \<and> discriminant_exclusive (result arg)
   \<and> (case ofThrowable throwable s of
        (Returned r, s') \<Rightarrow> discriminant_exclusive r
      | (Thrown x, s') \<Rightarrow> False)
   \<and> (case ofPromise thunk s of
        (Fulfilled r, s') \<Rightarrow> discriminant_exclusive r
      | (Rejected x, s') \<Rightarrow> False
      | (Pending, s') \<Rightarrow> True)"
proof -
  have "discriminant_exclusive (result arg)"
    using result_ok_or_err [of arg] discriminant_exclusive_ok discriminant_exclusive_err
    by auto
  moreover have "case ofThrowable throwable s of
        (Returned r, s') \<Rightarrow> discriminant_exclusive r
      | (Thrown x, s') \<Rightarrow> False"
    by (simp add: ofThrowable_def discriminant_exclusive_ok discriminant_exclusive_err
        split: prod.splits completion.splits)
  moreover have "case ofPromise thunk s of
        (Fulfilled r, s') \<Rightarrow> discriminant_exclusive r
      | (Rejected x, s') \<Rightarrow> False
      | (Pending, s') \<Rightarrow> True"
    by (simp add: ofPromise_def discriminant_exclusive_ok discriminant_exclusive_err
        split: prod.splits completion.splits settlement.splits)
  ultimately show ?thesis
    using discriminant_exclusive_ok discriminant_exclusive_err by simp
qed

text \<open>
  The claim as the specification words it, "exactly one of \<open>value\<close>/\<open>err\<close> is populated"
  for every constructed Result, fails at \<^verbatim>\<open>ok(null)\<close>: it is an Ok, and both of its
  fields are \<^verbatim>\<open>null\<close>.
\<close>

theorem ok_null_not_exactly_one_populated:
  "isOk (ok JNull) \<and> value (ok JNull) = JNull \<and> ResultCase.err (ok JNull) = JNull
   \<and> \<not> exactly_one_populated (ok JNull)"
  by (simp add: exactly_one_populated_def isOk_ok value_ok) (simp add: ok_def)

section \<open>The heuristic constructor\<close>

text \<open>
  C6: \<open>result\<close> of a value is \<open>ok\<close> of it exactly when the value is truthy and is not
  an instance of \<^verbatim>\<open>Error\<close>; otherwise it is \<open>err\<close> of it, the value standing in the
  field \<open>err\<close>. Without an argument it is \<open>err\<close> of \<^verbatim>\<open>undefined\<close>. The values
  \<^verbatim>\<open>null\<close>, \<^verbatim>\<open>undefined\<close>, zero, the empty string and \<^verbatim>\<open>false\<close> are not truthy
  (nor are \<^verbatim>\<open>NaN\<close> and \<^verbatim>\<open>0n\<close>), and an error object is truthy and an instance of
  \<^verbatim>\<open>Error\<close>.
\<close>

theorem result_heuristic:
  "result (Some v) = (if truthy v \<and> \<not> instanceof_Error v then ok v else err v)
   \<and> isOk (result (Some v)) = (truthy v \<and> \<not> instanceof_Error v)
   \<and> isErr (result (Some v)) = (\<not> (truthy v \<and> \<not> instanceof_Error v))
   \<and> value (result (Some v)) = (if truthy v \<and> \<not> instanceof_Error v then v else JNull)
   \<and> ResultCase.err (result (Some v)) = (if truthy v \<and> \<not> instanceof_Error v then JNull else v)
   \<and> result None = err JUndefined
   \<and> \<not> truthy JNull \<and> \<not> truthy JUndefined \<and> \<not> truthy (JNumber (Finite_number 0))
   \<and> \<not> truthy (JString []) \<and> \<not> truthy (JBoolean False)
   \<and> \<not> truthy (JNumber NaN) \<and> \<not> truthy (JBigInt 0)
   \<and> instanceof_Error (JError c m ps) \<and> truthy (JError c m ps)"
  by (simp add: result_def isOk_ok isOk_err isErr_ok isErr_err value_ok err_err)
     (simp add: ok_def err_def)

section \<open>Capturing what a thunk throws\<close>

text \<open>
  C5: \<open>ofThrowable\<close> calls the thunk exactly once; when the thunk returns \<open>v\<close> the
  result is \<open>ok v\<close>, when it throws \<open>e\<close> the result is \<open>err e\<close>, and \<open>ofThrowable\<close>
  itself never throws. \<open>ofPromise\<close> calls its thunk exactly once and, when the thunk
  returns a promise, awaits that promise exactly once; its own promise is fulfilled with
  \<open>ok v\<close> when the awaited promise is fulfilled with \<open>v\<close>, fulfilled with \<open>err e\<close>
  when the awaited promise is rejected with \<open>e\<close> (or the call of the thunk throws
  \<open>e\<close>), and is never rejected.
\<close>

theorem capture_of_thunk:
  "ofThrowable throwable s =
     (case throwable s of
        (Returned v, s') \<Rightarrow> (Returned (ok v), s')
      | (Thrown e, s') \<Rightarrow> (Returned (err e), s'))
   \<and> fst (ofThrowable throwable s) \<noteq> Thrown x
   \<and> fst (snd (ofThrowable (spy ''throwable'' [] throwable) (seen, s)))
       = seen @ [(''throwable'', [])]
   \<and> ofPromise thunk s =
       (case thunk s of
          (Thrown e, s1) \<Rightarrow> (Fulfilled (err e), s1)
        | (Returned p, s1) \<Rightarrow>
            (case p s1 of
               (Fulfilled v, s2) \<Rightarrow> (Fulfilled (ok v), s2)
             | (Rejected e, s2) \<Rightarrow> (Fulfilled (err e), s2)
             | (Pending, s2) \<Rightarrow> (Pending, s2)))
   \<and> fst (ofPromise thunk s) \<noteq> Rejected x
   \<and> fst (snd (ofPromise (spy_promise thunk) (seen, s))) =
       (case thunk s of
          (Returned p, s1) \<Rightarrow> seen @ [(''thunk'', []), (''await'', [])]
        | (Thrown e, s1) \<Rightarrow> seen @ [(''thunk'', [])])"
  by (simp add: ofThrowable_def ofPromise_def spy_def spy_promise_def
      split: prod.splits completion.splits settlement.splits)

text \<open>
  C9: whatever value \<open>x\<close> the thunk of \<open>ofThrowable\<close> throws, and whatever value the
  promise awaited by \<open>ofPromise\<close> is rejected with (or the call of its thunk throws),
  the Result is \<open>err x\<close>: an Err with exactly \<open>x\<close> in its field \<open>err\<close>. Nothing checks
  that \<open>x\<close> is an instance of \<^verbatim>\<open>Error\<close>: the field holds an error object only if
  \<open>x\<close> was one, so a thrown string or number is wrapped as it is.
\<close>

theorem capture_any_thrown_value:
  "(throwable s = (Thrown x, s') \<longrightarrow> ofThrowable throwable s = (Returned (err x), s'))
   \<and> (thunk s = (Thrown x, s1) \<longrightarrow> ofPromise thunk s = (Fulfilled (err x), s1))
   \<and> (thunk' s = (Returned p, s1) \<and> p s1 = (Rejected x, s2)
        \<longrightarrow> ofPromise thunk' s = (Fulfilled (err x), s2))
   \<and> isErr (err x) \<and> ResultCase.err (err x) = x
   \<and> instanceof_Error (ResultCase.err (err x)) = instanceof_Error x"
  by (simp add: ofThrowable_def ofPromise_def isErr_err err_err)

theorem capture_any_thrown_value_witness:
  "ofThrowable (\<lambda>s. (Thrown (JString ''boom''), s)) ()
     = (Returned (err (JString ''boom'')), ())
   \<and> ofPromise (\<lambda>s. (Thrown (JString ''boom''), s)) ()
     = (Fulfilled (err (JString ''boom'')), ())
   \<and> ofPromise (\<lambda>s. (Returned (\<lambda>s. (Rejected (JString ''boom''), s)), s)) ()
     = (Fulfilled (err (JString ''boom'')), ())
   \<and> isErr (err (JString ''boom''))
   \<and> ResultCase.err (err (JString ''boom'')) = JString ''boom''
   \<and> \<not> instanceof_Error (ResultCase.err (err (JString ''boom'')))"
  using capture_any_thrown_value
    [where throwable = "\<lambda>s. (Thrown (JString ''boom''), s)"
       and thunk = "\<lambda>s. (Thrown (JString ''boom''), s)"
       and thunk' = "\<lambda>s. (Returned (\<lambda>s. (Rejected (JString ''boom''), s)), s)"
       and p = "\<lambda>s. (Rejected (JString ''boom''), s)"
       and x = "JString ''boom''" and s = "()" and s' = "()" and ?s1.0 = "()" and ?s2.0 = "()"]
  by simp

section \<open>Transforming a Result\<close>

lemma andThen_ok: "andThen (ok a) tx s = tx a s"
  by (simp add: andThen_def isOk_ok value_ok)

lemma andThen_err: "andThen (err e) tx s = (Returned (err e), s)"
  by (simp add: andThen_def isOk_err)

lemma andThen_chain_err: "andThen_chain (err e) txs s = (Returned (err e), s)"
  by (induction txs) (simp_all add: andThen_err)

text \<open>
  C2: \<open>andThen\<close> of \<open>ok a\<close> and \<open>tx\<close> is the call \<open>tx a\<close> itself, with its completion
  and its effects. \<open>andThen\<close> of \<open>err e\<close> returns that same \<open>err e\<close>, the error \<open>e\<close> in
  it, and leaves the state as it was: \<open>tx\<close> is not called (a recording \<open>tx\<close> records
  nothing). A chain of \<open>andThen\<close> calls that starts from \<open>err e\<close> returns \<open>err e\<close>
  and calls none of its functions.
\<close>

theorem andThen_bind:
  "andThen (ok a) tx s = tx a s
   \<and> andThen (err e) tx s = (Returned (err e), s)
   \<and> ResultCase.err (err e) = e
   \<and> andThen (err e) (\<lambda>a. spy ''tx'' [a] (tx' a)) (seen, s') = (Returned (err e), seen, s')
   \<and> andThen_chain (err e) txs s = (Returned (err e), s)
   \<and> andThen_chain (err e) (map (\<lambda>(name, f). \<lambda>a. spy name [a] (f a)) fs) (seen, s')
       = (Returned (err e), seen, s')"
  by (simp add: andThen_ok andThen_err andThen_chain_err err_err)

text \<open>
  C3: \<open>map\<close> of \<open>ok a\<close> and \<open>f\<close> is \<open>ok (f a)\<close> (and when the call of \<open>f\<close> throws, so
  does \<open>map\<close>); \<open>map\<close> of \<open>err e\<close> returns that same \<open>err e\<close> and does not call \<open>f\<close>.
  On an Ok, \<open>f\<close> is called once, with the wrapped value; on any Result at all it is
  called at most once.
\<close>

theorem map_result_functor:
  "map_result (ok a) (returns f) s = (Returned (ok (f a)), s)
   \<and> map_result (ok a) tx s =
       (case tx a s of
          (Returned b, s') \<Rightarrow> (Returned (ok b), s')
        | (Thrown x, s') \<Rightarrow> (Thrown x, s'))
   \<and> map_result (err e) tx s = (Returned (err e), s)
   \<and> fst (snd (map_result (ok a) (\<lambda>a. spy ''tx'' [a] (tx' a)) (seen, s')))
       = seen @ [(''tx'', [a])]
   \<and> map_result (err e) (\<lambda>a. spy ''tx'' [a] (tx' a)) (seen, s') = (Returned (err e), seen, s')
   \<and> length (fst (snd (map_result r (\<lambda>a. spy ''tx'' [a] (tx' a)) (seen, s'))))
       \<le> length seen + 1"
  by (simp add: map_result_def isOk_ok isOk_err value_ok returns_def spy_def
      split: prod.splits completion.splits)

section \<open>Extracting the value\<close>

text \<open>
  C4: on \<open>ok a\<close>, \<open>valueOr\<close> and \<open>valueExn\<close> both give \<open>a\<close>. On \<open>err e\<close>,
  \<open>valueOr\<close> gives the fallback (it has no statement that throws and calls nothing:
  it is a function to a value, not to a completion), and \<open>valueExn\<close> throws an error object of the class
  \<^verbatim>\<open>ResultAccessErr\<close> with the message "Tried to access result value that is not ok":
  the same object whatever \<open>e\<close> is, not \<open>e\<close> (for the error with the message "x", what
  is thrown is not that error).
\<close>

theorem valueOr_valueExn_duality:
  "valueOr (ok a) fallback = a
   \<and> valueExn (ok a) = Returned a
   \<and> valueOr (err e) fallback = fallback
   \<and> valueExn (err e) = Thrown (ResultAccessErr ''Tried to access result value that is not ok'')
   \<and> ResultAccessErr ''Tried to access result value that is not ok''
       = JError ''ResultAccessErr'' ''Tried to access result value that is not ok''
           [(''_tag'', JString ''ResultAccessErr'')]
   \<and> instanceof_Error (ResultAccessErr ''Tried to access result value that is not ok'')
   \<and> valueExn (err (JError ''Error'' ''x'' [])) \<noteq> Thrown (JError ''Error'' ''x'' [])"
  by (simp add: valueOr_def valueExn_def isOk_ok isOk_err value_ok ResultAccessErr_def)

section \<open>Combining a sequence of Results\<close>

lemma array_set_in_range: "i < length xs \<Longrightarrow> array_set xs i v = xs[i := v]"
  by (simp add: array_set_def)

text \<open>
  The loop on Oks only: it writes their values into the array from the index \<open>i\<close> on,
  when there is room for them.
\<close>

lemma combine_loop_all_ok:
  "i + length xs \<le> length arr \<Longrightarrow>
   combine_loop (map ok xs) arr i = ok (JArray (take i arr @ xs @ drop (i + length xs) arr))"
proof (induction xs arbitrary: arr i)
  case Nil
  then show ?case by simp
next
  case (Cons a xs)
  from Cons.prems have lt: "i < length arr" by simp
  have room: "(i + 1) + length xs \<le> length (arr[i := a])"
    using Cons.prems by simp
  have "combine_loop (map ok (a # xs)) arr i = combine_loop (map ok xs) (arr[i := a]) (i + 1)"
    using lt by (simp add: isOk_ok value_ok array_set_in_range)
  also have "\<dots> = ok (JArray (take (i + 1) (arr[i := a]) @ xs @ drop (i + 1 + length xs) (arr[i := a])))"
    by (rule Cons.IH [OF room])
  also have "take (i + 1) (arr[i := a]) = take i arr @ [a]"
    using lt by (simp add: take_Suc_conv_app_nth)
  also have "drop (i + 1 + length xs) (arr[i := a]) = drop (i + length (a # xs)) arr"
    by simp
  finally show ?case by simp
qed

lemma combine_loop_first_not_ok:
  "\<not> isOk r \<Longrightarrow> combine_loop (map ok xs @ r # rest) arr i = r"
  by (induction xs arbitrary: arr i) (simp_all add: isOk_ok)

text \<open>
  The loop on any sequence, when the array has room for it: it returns the first element
  that is not an Ok, and when there is none, the array with the values written from the
  index \<open>i\<close> on.
\<close>

lemma combine_loop_scan:
  "i + length rs \<le> length arr \<Longrightarrow>
   combine_loop rs arr i =
     (case dropWhile isOk rs of
        [] \<Rightarrow> ok (JArray (take i arr @ map value rs @ drop (i + length rs) arr))
      | r # rest \<Rightarrow> r)"
proof (induction rs arbitrary: arr i)
  case Nil
  then show ?case by simp
next
  case (Cons r rs)
  show ?case
  proof (cases "isOk r")
    case False
    then show ?thesis by simp
  next
    case True
    from Cons.prems have lt: "i < length arr" by simp
    have room: "(i + 1) + length rs \<le> length (arr[i := value r])"
      using Cons.prems by simp
    have t: "take (i + 1) (arr[i := value r]) = take i arr @ [value r]"
      using lt by (simp add: take_Suc_conv_app_nth)
    have d: "drop (i + 1 + length rs) (arr[i := value r]) = drop (i + length (r # rs)) arr"
      by simp
    have "combine_loop (r # rs) arr i = combine_loop rs (arr[i := value r]) (i + 1)"
      using True lt by (simp add: array_set_in_range)
    also have "\<dots> =
      (case dropWhile isOk rs of
         [] \<Rightarrow> ok (JArray (take (i + 1) (arr[i := value r]) @ map value rs
                  @ drop (i + 1 + length rs) (arr[i := value r])))
       | r' # rest \<Rightarrow> r')"
      by (rule Cons.IH [OF room])
    finally show ?thesis
      using True
      by (simp only: t d dropWhile.simps if_True list.map append_assoc append_Cons append_Nil)
  qed
qed

text \<open>
  C1: \<open>combine\<close> goes through the sequence in order. On any sequence it returns the
  first element that is not an Ok, whatever stands after it, and when every element is
  an Ok, \<open>ok\<close> of the array of their values in the order of the input. So \<open>combine\<close>
  of the empty sequence is \<open>ok\<close> of the empty array; \<open>combine\<close> of Oks is \<open>ok\<close> of
  the array of their values; and \<open>combine\<close> of a sequence whose first Err is \<open>err e\<close>
  (Oks before it, anything after it) is that \<open>err e\<close>.
\<close>

theorem combine_in_order:
  "combine rs = (case dropWhile isOk rs of [] \<Rightarrow> ok (JArray (map value rs)) | r # rest \<Rightarrow> r)
   \<and> combine [] = ok (JArray [])
   \<and> combine (map ok xs) = ok (JArray xs)
   \<and> combine (map ok xs @ err e # rest) = err e"
proof -
  let ?arr = "replicate (length rs) JNull"
  have filled: "take 0 ?arr @ map value rs @ drop (0 + length rs) ?arr = map value rs"
    by simp
  have "combine rs = combine_loop rs ?arr 0"
    by (simp add: combine_def)
  also have "\<dots> =
     (case dropWhile isOk rs of
        [] \<Rightarrow> ok (JArray (take 0 ?arr @ map value rs @ drop (0 + length rs) ?arr))
      | r # rest \<Rightarrow> r)"
    by (rule combine_loop_scan) simp
  finally have scan:
    "combine rs = (case dropWhile isOk rs of [] \<Rightarrow> ok (JArray (map value rs)) | r # rest \<Rightarrow> r)"
    by (simp only: filled)
  have all_ok: "combine (map ok xs) = ok (JArray xs)"
    using combine_loop_all_ok [of 0 xs "replicate (length xs) JNull"]
    by (simp add: combine_def)
  have first_err: "combine (map ok xs @ err e # rest) = err e"
    by (simp add: combine_def combine_loop_first_not_ok isOk_err)
  have empty: "combine [] = ok (JArray [])"
    by (simp add: combine_def)
  from scan all_ok first_err empty show ?thesis
    by (simp only: simp_thms)
qed

section \<open>Case analysis\<close>

text \<open>
  C8: \<open>match\<close> of \<open>ok a\<close> is the call of the handler \<open>Ok\<close> on \<open>a\<close>, \<open>match\<close> of
  \<open>err e\<close> is the call of the handler \<open>Err\<close> on \<open>e\<close>, with that call's completion and
  effects unchanged. With recording handlers, on any Result exactly one call is recorded:
  of \<open>Ok\<close> with the field \<open>value\<close> when the Result is an Ok, of \<open>Err\<close> with the field
  \<open>err\<close> otherwise.
\<close>

theorem match_exhaustive:
  "match (ok a) cases = Ok cases a
   \<and> match (err e) cases = Err cases e
   \<and> fst (snd (match (ok a)
        \<lparr>Ok = \<lambda>a. spy ''Ok'' [a] (onOk a), Err = \<lambda>e. spy ''Err'' [e] (onErr e)\<rparr> (seen, s)))
       = seen @ [(''Ok'', [a])]
   \<and> fst (snd (match (err e)
        \<lparr>Ok = \<lambda>a. spy ''Ok'' [a] (onOk a), Err = \<lambda>e. spy ''Err'' [e] (onErr e)\<rparr> (seen, s)))
       = seen @ [(''Err'', [e])]
   \<and> match r \<lparr>Ok = \<lambda>a. spy ''Ok'' [a] (onOk a), Err = \<lambda>e. spy ''Err'' [e] (onErr e)\<rparr> (seen, s)
       = (if isOk r
          then (case onOk (value r) s of (u, s') \<Rightarrow> (u, seen @ [(''Ok'', [value r])], s'))
          else (case onErr (ResultCase.err r) s of
                  (u, s') \<Rightarrow> (u, seen @ [(''Err'', [ResultCase.err r])], s')))"
  by (simp add: match_def isOk_ok isOk_err value_ok err_err spy_def split: prod.splits)

end
